theory Spec2Isabelle
  imports Complex_Main
begin

text \<open>
  The component of src/src/App.vue: a page on which a user chooses an image, the image
  is posted to a detection service, and the boxes the service returns are laid over the
  displayed image and can be downloaded as crops. The refs of the component are the
  fields of a record, each handler is a function on that record, and the suspended part
  of the one asynchronous function is a function of what the network gives back.
\<close>

section \<open>Values of the component\<close>

text \<open>
  Strings are lists of bytes; the Chinese literals of the source are written as their
  UTF-8 bytes. Only emptiness, equality and concatenation of strings are used.
\<close>

definition msg_empty_domain :: string where
  \<comment> \<open>line 78: the message of the Error thrown when serviceDomain is empty\<close>
  "msg_empty_domain =
     [CHR 0xE6, CHR 0x9C, CHR 0x8D, CHR 0xE5, CHR 0x8A, CHR 0xA1, CHR 0xE5, CHR 0x9F,
      CHR 0x9F, CHR 0xE5, CHR 0x90, CHR 0x8D, CHR 0xE4, CHR 0xB8, CHR 0x8D, CHR 0xE8,
      CHR 0x83, CHR 0xBD, CHR 0xE4, CHR 0xB8, CHR 0xBA, CHR 0xE7, CHR 0xA9, CHR 0xBA,
      CHR 0xE3, CHR 0x80, CHR 0x82]"

definition api_error_prefix :: string where
  \<comment> \<open>line 88: the text in front of the status code\<close>
  "api_error_prefix =
     [CHR ''A'', CHR ''P'', CHR ''I'', CHR '' '', CHR 0xE9, CHR 0x94, CHR 0x99, CHR 0xE8,
      CHR 0xAF, CHR 0xAF, CHR '':'', CHR '' '']"

definition msg_no_target :: string where
  \<comment> \<open>line 94: no target detected, try adjusting the confidence threshold\<close>
  "msg_no_target =
     [CHR 0xE6, CHR 0x9C, CHR 0xAA, CHR 0xE6, CHR 0xA3, CHR 0x80, CHR 0xE6, CHR 0xB5,
      CHR 0x8B, CHR 0xE5, CHR 0x88, CHR 0xB0, CHR 0xE7, CHR 0x9B, CHR 0xAE, CHR 0xE6,
      CHR 0xA0, CHR 0x87, CHR 0xE3, CHR 0x80, CHR 0x82, CHR 0xE8, CHR 0xAF, CHR 0xB7,
      CHR 0xE5, CHR 0xB0, CHR 0x9D, CHR 0xE8, CHR 0xAF, CHR 0x95, CHR 0xE8, CHR 0xB0,
      CHR 0x83, CHR 0xE6, CHR 0x95, CHR 0xB4, CHR 0xE7, CHR 0xBD, CHR 0xAE, CHR 0xE4,
      CHR 0xBF, CHR 0xA1, CHR 0xE5, CHR 0xBA, CHR 0xA6, CHR 0xE9, CHR 0x98, CHR 0x88,
      CHR 0xE5, CHR 0x80, CHR 0xBC, CHR 0xE3, CHR 0x80, CHR 0x82]"

definition msg_unknown :: string where
  \<comment> \<open>line 97: the fallback when the caught exception has an empty message\<close>
  "msg_unknown =
     [CHR 0xE5, CHR 0x8F, CHR 0x91, CHR 0xE7, CHR 0x94, CHR 0x9F, CHR 0xE6, CHR 0x9C,
      CHR 0xAA, CHR 0xE7, CHR 0x9F, CHR 0xA5, CHR 0xE9, CHR 0x94, CHR 0x99, CHR 0xE8,
      CHR 0xAF, CHR 0xAF, CHR 0xE3, CHR 0x80, CHR 0x82]"


definition default_domain :: string where
  \<comment> \<open>line 21\<close>
  "default_domain = ''https://ax-img-clip.dev.yiyiny.com''"

definition msg_null_index :: string where
  \<comment> \<open>the message of the TypeError raised by \<open>null[0]\<close> (the wording is the engine's)\<close>
  "msg_null_index = ''Cannot read properties of null (reading 0)''"


text \<open>Template literals print an integer in decimal.\<close>

definition digit :: "nat \<Rightarrow> char" where
  "digit d = char_of (48 + d)"

function dec :: "nat \<Rightarrow> string" where
  "dec n = (if n < 10 then [digit n] else dec (n div 10) @ [digit (n mod 10)])"
  by pat_completeness auto
termination
  by (relation "measure (\<lambda>n. n)") auto

text \<open>
  A decoded JSON value. A JavaScript value that may also be \<open>undefined\<close> is a
  \<open>json option\<close>, with \<open>None\<close> for \<open>undefined\<close>.
\<close>

datatype json =
    JNull
  | JBool bool
  | JNum real
  | JStr string
  | JArr "json list"
  | JObj "(string \<times> json) list"

text \<open>
  \<open>data[0]\<close> (line 92): a TypeError on \<open>null\<close>, the first element of an array or the
  first unit of a string when there is one, the property named \<open>0\<close> of an object,
  and \<open>undefined\<close> in every other case.
\<close>

fun index0 :: "json \<Rightarrow> string + json option" where
  "index0 JNull = Inl msg_null_index"
| "index0 (JBool b) = Inr None"
| "index0 (JNum n) = Inr None"
| "index0 (JStr []) = Inr None"
| "index0 (JStr (c # cs)) = Inr (Some (JStr [c]))"
| "index0 (JArr []) = Inr None"
| "index0 (JArr (x # xs)) = Inr (Some x)"
| "index0 (JObj kvs) = Inr (map_of kvs ''0'')"

text \<open>\<open>data.length === 0\<close> (line 93), for a value on which \<open>data[0]\<close> did not throw.\<close>

fun length_is_0 :: "json \<Rightarrow> bool" where
  "length_is_0 (JStr s) = (s = [])"
| "length_is_0 (JArr xs) = (xs = [])"
| "length_is_0 (JObj kvs) = (map_of kvs ''length'' = Some (JNum 0))"
| "length_is_0 _ = False"






section \<open>State\<close>

record blob =
  name :: string
  bytes :: string

record img =
  \<comment> \<open>the loaded image element kept in originalImage\<close>
  naturalWidth :: nat
  naturalHeight :: nat

record preview =
  \<comment> \<open>the displayed image element kept in imagePreview\<close>
  clientWidth :: nat
  clientHeight :: nat

text \<open>
  The two entries of localStorage that the component uses. The entry \<open>domainList\<close>
  holds the JSON text of an array of strings and is kept as that array.
\<close>

record storage =
  item_serviceDomain :: "string option"
  item_domainList :: "string list option"

text \<open>
  A call of \<open>fetch\<close> (lines 80-84): the address \<open>${serviceDomain}/crop\<close>, the value
  of the query parameter \<open>threshold\<close>, and the file of the form. The method is POST.
\<close>

record request =
  url :: string
  query_threshold :: real
  form_file :: blob

text \<open>
  The refs of the component, the storage of the browser, and two fields that record
  what the component did to the network: \<open>fetched\<close>, the calls of \<open>fetch\<close> issued so
  far in order, and \<open>awaiting\<close>, the number of invocations of runDetection that are
  suspended at an \<open>await\<close>.
\<close>

record state =
  "file" :: "blob option"
  threshold :: real
  imageUrl :: string
  results :: "json option"
  isLoading :: bool
  error :: string
  originalImage :: "img option"
  imagePreview :: "preview option"
  serviceDomain :: string
  domainList :: "string list"
  localStorage :: storage
  fetched :: "request list"
  awaiting :: nat

text \<open>
  What the awaited network call gives back. The response carries what each of its two
  body readers would settle with: \<open>response.text()\<close> and \<open>response.json()\<close>, each
  either rejected with a message (\<open>Inl\<close>) or fulfilled (\<open>Inr\<close>).
\<close>

record response =
  status :: nat
  statusText :: string
  body_text :: "string + string"
  body_json :: "string + json"

datatype outcome =
    Rejected string
  | Resolved response

definition ok :: "response \<Rightarrow> bool" where
  "ok r = (200 \<le> status r \<and> status r \<le> 299)"

section \<open>Domain memory\<close>

definition script_setup :: "storage \<Rightarrow> state" where
  \<comment> \<open>lines 5-16: the initial refs; the immediate watcher finds imageUrl empty\<close>
  "script_setup st =
     \<lparr> file = None, threshold = 0.5, imageUrl = [], results = Some (JArr []),
       isLoading = False, error = [], originalImage = None, imagePreview = None,
       serviceDomain = [], domainList = [], localStorage = st, fetched = [], awaiting = 0 \<rparr>"

definition watch_serviceDomain :: "state \<Rightarrow> state \<Rightarrow> state" where
  \<comment> \<open>lines 35-39: runs when serviceDomain differs from its value before the event\<close>
  "watch_serviceDomain old s =
     (if serviceDomain s \<noteq> serviceDomain old \<and> serviceDomain s \<noteq> []
      then s\<lparr>localStorage := (localStorage s)\<lparr>item_serviceDomain := Some (serviceDomain s)\<rparr>\<rparr>
      else s)"

definition onMounted :: "state \<Rightarrow> state" where
  \<comment> \<open>lines 19-32, followed by the watcher of serviceDomain\<close>
  "onMounted s =
     (let savedDomains = (case item_domainList (localStorage s) of None \<Rightarrow> [] | Some l \<Rightarrow> l);
          lastUsedDomain = (case item_serviceDomain (localStorage s) of
                              None \<Rightarrow> default_domain
                            | Some d \<Rightarrow> if d = [] then default_domain else d);
          s1 = (if length savedDomains > 0 then s\<lparr>domainList := savedDomains\<rparr>
                else s\<lparr>domainList := [lastUsedDomain]\<rparr>)
      in watch_serviceDomain s1 (s1\<lparr>serviceDomain := lastUsedDomain\<rparr>))"

definition addDomainToList :: "state \<Rightarrow> state" where
  \<comment> \<open>lines 42-47\<close>
  "addDomainToList s =
     (if serviceDomain s \<noteq> [] \<and> serviceDomain s \<notin> set (domainList s)
      then (let s1 = s\<lparr>domainList := domainList s @ [serviceDomain s]\<rparr>
            in s1\<lparr>localStorage := (localStorage s1)\<lparr>item_domainList := Some (domainList s1)\<rparr>\<rparr>)
      else s)"

section \<open>Request orchestration\<close>

text \<open>
  runDetection is asynchronous. \<open>runDetection_begin\<close> is the part that runs to the first
  \<open>await\<close> (lines 62-84): it either returns, or is suspended after the call of \<open>fetch\<close>.
  \<open>runDetection_resume\<close> is the rest (lines 86-100), run on the state of that later
  moment with what the network gave back.
\<close>

datatype progress =
    Returned state
  | Suspended state

fun state_of :: "progress \<Rightarrow> state" where
  "state_of (Returned s) = s"
| "state_of (Suspended s) = s"

definition catch_block :: "string \<Rightarrow> state \<Rightarrow> state" where
  \<comment> \<open>line 97, on the message of the exception caught\<close>
  "catch_block message s = s\<lparr>error := (if message \<noteq> [] then message else msg_unknown)\<rparr>"

definition finally_block :: "state \<Rightarrow> state" where
  \<comment> \<open>line 99\<close>
  "finally_block s = s\<lparr>isLoading := False\<rparr>"

definition runDetection_begin :: "state \<Rightarrow> progress" where
  "runDetection_begin s =
     (case file s of
        None \<Rightarrow> Returned s
      | Some f \<Rightarrow>
          (let s1 = s\<lparr>isLoading := True\<rparr>;
               s2 = s1\<lparr>error := []\<rparr>;
               s3 = s2\<lparr>results := Some (JArr [])\<rparr>;
               s4 = addDomainToList s3
           in if serviceDomain s4 = []
              then Returned (finally_block (catch_block msg_empty_domain s4))
              else Suspended
                     (s4\<lparr>fetched := fetched s4 @
                            [\<lparr>url = serviceDomain s4 @ ''/crop'',
                              query_threshold = threshold s4, form_file = f\<rparr>],
                          awaiting := Suc (awaiting s4)\<rparr>)))"

definition api_error :: "response \<Rightarrow> string \<Rightarrow> string" where
  \<comment> \<open>line 88\<close>
  "api_error r errorText =
     api_error_prefix @ dec (status r) @ '' '' @ statusText r @ '' - '' @ errorText"

definition try_rest :: "outcome \<Rightarrow> state \<Rightarrow> state" where
  \<comment> \<open>lines 81-97: the try block from the settled fetch on, with its catch\<close>
  "try_rest out s =
     (case out of
        Rejected message \<Rightarrow> catch_block message s
      | Resolved r \<Rightarrow>
          if \<not> ok r
          then (case body_text r of
                  Inl message \<Rightarrow> catch_block message s
                | Inr errorText \<Rightarrow> catch_block (api_error r errorText) s)
          else (case body_json r of
                  Inl message \<Rightarrow> catch_block message s
                | Inr data \<Rightarrow>
                    (case index0 data of
                       Inl message \<Rightarrow> catch_block message s
                     | Inr v \<Rightarrow>
                         (let s1 = s\<lparr>results := v\<rparr>
                          in if length_is_0 data then s1\<lparr>error := msg_no_target\<rparr> else s1))))"

definition runDetection_resume :: "outcome \<Rightarrow> state \<Rightarrow> state" where
  "runDetection_resume out s = (finally_block (try_rest out s))\<lparr>awaiting := awaiting s - 1\<rparr>"

definition runDetection :: "outcome \<Rightarrow> state \<Rightarrow> state" where
  \<comment> \<open>one invocation with nothing else happening while it is suspended\<close>
  "runDetection out s =
     (case runDetection_begin s of
        Returned s' \<Rightarrow> s'
      | Suspended s' \<Rightarrow> runDetection_resume out s')"

section \<open>Events of the page\<close>

definition createObjectURL :: "string \<Rightarrow> string" where
  \<comment> \<open>the browser's address of the selected file; the argument is the identifier it picks\<close>
  "createObjectURL uuid = ''blob:'' @ uuid"

definition handleFileChange :: "blob list \<Rightarrow> string \<Rightarrow> state \<Rightarrow> state" where
  \<comment> \<open>lines 50-58; the first argument is \<open>event.target.files\<close>\<close>
  "handleFileChange files uuid s =
     (case files of
        [] \<Rightarrow> s
      | selectedFile # _ \<Rightarrow>
          s\<lparr>file := Some selectedFile, imageUrl := createObjectURL uuid,
            results := Some (JArr []), error := []\<rparr>)"

definition watch_imageUrl_threshold :: "state \<Rightarrow> state \<Rightarrow> progress" where
  \<comment> \<open>lines 104-108: runs when imageUrl or threshold differs from its value before the event\<close>
  "watch_imageUrl_threshold old s =
     (if (imageUrl s \<noteq> imageUrl old \<or> threshold s \<noteq> threshold old) \<and> imageUrl s \<noteq> []
      then runDetection_begin s
      else Returned s)"

definition onImageLoad :: "img \<Rightarrow> state \<Rightarrow> state" where
  \<comment> \<open>lines 112-114\<close>
  "onImageLoad target s = s\<lparr>originalImage := Some target\<rparr>"

text \<open>
  What can happen to the mounted page: the handlers and bindings of the template
  (lines 168-200) and the settling of a suspended invocation. The inputs bound with
  \<open>v-model\<close> assign the ref, and the watchers run after the assignment.
\<close>

datatype event =
    FileChange "blob list" string
  | ThresholdInput real
  | DomainInput string
  | ClickRefresh
  | ClickRetry
  | ImageLoad img
  | Layout preview
  | Settled outcome

fun enabled :: "event \<Rightarrow> state \<Rightarrow> bool" where
  "enabled ClickRefresh s = (file s \<noteq> None \<and> \<not> isLoading s)"
| "enabled ClickRetry s = (error s \<noteq> [])"
| "enabled (ImageLoad target) s = (imageUrl s \<noteq> [])"
| "enabled (Layout p) s = (imageUrl s \<noteq> [])"
| "enabled (Settled out) s = (0 < awaiting s)"
| "enabled _ s = True"

fun step :: "event \<Rightarrow> state \<Rightarrow> state" where
  "step (FileChange files uuid) s =
     state_of (watch_imageUrl_threshold s (handleFileChange files uuid s))"
| "step (ThresholdInput v) s = state_of (watch_imageUrl_threshold s (s\<lparr>threshold := v\<rparr>))"
| "step (DomainInput v) s = watch_serviceDomain s (s\<lparr>serviceDomain := v\<rparr>)"
| "step ClickRefresh s = state_of (runDetection_begin s)"
| "step ClickRetry s = state_of (runDetection_begin s)"
| "step (ImageLoad target) s = onImageLoad target s"
| "step (Layout p) s = s\<lparr>imagePreview := Some p\<rparr>"
| "step (Settled out) s = runDetection_resume out s"

fun exec :: "event list \<Rightarrow> state \<Rightarrow> state option" where
  "exec [] s = Some s"
| "exec (e # es) s = (if enabled e s then exec es (step e s) else None)"

definition mounted :: "storage \<Rightarrow> state" where
  \<comment> \<open>the page once it is mounted, on the storage the browser holds\<close>
  "mounted st = onMounted (script_setup st)"

section \<open>Result rendering\<close>





section \<open>Concrete inputs\<close>

definition example_file :: blob where
  "example_file = \<lparr>name = ''scroll.v2.jpg'', bytes = ''JFIF''\<rparr>"

definition empty_storage :: storage where
  "empty_storage = \<lparr>item_serviceDomain = None, item_domainList = None\<rparr>"

definition choose_file :: event where
  "choose_file = FileChange [example_file] ''1''"

definition json_response :: "string \<Rightarrow> json \<Rightarrow> response" where
  \<comment> \<open>a 200 response whose body is the given JSON text, with the value it decodes to\<close>
  "json_response body data =
     \<lparr>status = 200, statusText = ''OK'', body_text = Inr body, body_json = Inr data\<rparr>"

definition boom_response :: response where
  \<comment> \<open>a 500 response whose body is the text \<open>boom\<close>, which is not JSON\<close>
  "boom_response =
     \<lparr>status = 500, statusText = ''Internal Server Error'', body_text = Inr ''boom'',
       body_json = Inl ''Unexpected token b in JSON at position 0''\<rparr>"

definition quoted :: "string \<Rightarrow> string" where
  "quoted s = CHR 0x22 # s @ [CHR 0x22]"

definition example_body :: string where
  "example_body =
     ''[[{'' @ quoted ''bbox'' @ '':[0,0,10,10],'' @ quoted ''class_name'' @ '':''
       @ quoted ''seal'' @ '','' @ quoted ''confidence'' @ '':0.92}]]''"

definition fresh_state :: state where
  \<comment> \<open>the page mounted on an empty storage\<close>
  "fresh_state =
     \<lparr> file = None, threshold = 0.5, imageUrl = [],
       results = Some (JArr []), isLoading = False, error = [],
       originalImage = None, imagePreview = None,
       serviceDomain = default_domain, domainList = [default_domain],
       localStorage = \<lparr>item_serviceDomain = Some default_domain, item_domainList = None\<rparr>,
       fetched = [], awaiting = 0 \<rparr>"

definition selected_state :: state where
  \<comment> \<open>a file has been chosen in the fresh page (lines 54-57), the watcher has not run yet\<close>
  "selected_state =
     \<lparr> file = Some example_file, threshold = 0.5, imageUrl = ''blob:1'',
       results = Some (JArr []), isLoading = False, error = [],
       originalImage = None, imagePreview = None,
       serviceDomain = default_domain, domainList = [default_domain],
       localStorage = \<lparr>item_serviceDomain = Some default_domain, item_domainList = None\<rparr>,
       fetched = [], awaiting = 0 \<rparr>"

definition detecting_state :: state where
  \<comment> \<open>the first detection is suspended at its fetch\<close>
  "detecting_state =
     \<lparr> file = Some example_file, threshold = 0.5, imageUrl = ''blob:1'',
       results = Some (JArr []), isLoading = True, error = [],
       originalImage = None, imagePreview = None,
       serviceDomain = default_domain, domainList = [default_domain],
       localStorage = \<lparr>item_serviceDomain = Some default_domain, item_domainList = None\<rparr>,
       fetched = [\<lparr>url = default_domain @ ''/crop'', query_threshold = 0.5,
                   form_file = example_file\<rparr>],
       awaiting = 1 \<rparr>"

definition retargeted_state :: state where
  \<comment> \<open>the address has been edited while the first detection is suspended\<close>
  "retargeted_state =
     \<lparr> file = Some example_file, threshold = 0.5, imageUrl = ''blob:1'',
       results = Some (JArr []), isLoading = True, error = [],
       originalImage = None, imagePreview = None,
       serviceDomain = ''http://b'', domainList = [default_domain],
       localStorage = \<lparr>item_serviceDomain = Some ''http://b'', item_domainList = None\<rparr>,
       fetched = [\<lparr>url = default_domain @ ''/crop'', query_threshold = 0.5,
                   form_file = example_file\<rparr>],
       awaiting = 1 \<rparr>"


definition unaddressed_state :: state where
  \<comment> \<open>the address has been cleared in the fresh page\<close>
  "unaddressed_state =
     \<lparr> file = None, threshold = 0.5, imageUrl = [],
       results = Some (JArr []), isLoading = False, error = [],
       originalImage = None, imagePreview = None,
       serviceDomain = [], domainList = [default_domain],
       localStorage = \<lparr>item_serviceDomain = Some default_domain, item_domainList = None\<rparr>,
       fetched = [], awaiting = 0 \<rparr>"

definition example_detection :: json where
  "example_detection =
     JObj [(''bbox'', JArr [JNum 0, JNum 0, JNum 10, JNum 10]),
           (''class_name'', JStr ''seal''), (''confidence'', JNum 0.92)]"

definition retried_state :: state where
  \<comment> \<open>a second detection has started on the edited address\<close>
  "retried_state =
     \<lparr> file = Some example_file, threshold = 0.5, imageUrl = ''blob:1'',
       results = Some (JArr []), isLoading = True, error = [],
       originalImage = None, imagePreview = None,
       serviceDomain = ''http://b'', domainList = [default_domain, ''http://b''],
       localStorage = \<lparr>item_serviceDomain = Some ''http://b'',
                       item_domainList = Some [default_domain, ''http://b'']\<rparr>,
       fetched = [\<lparr>url = default_domain @ ''/crop'', query_threshold = 0.5,
                   form_file = example_file\<rparr>,
                  \<lparr>url = ''http://b'' @ ''/crop'', query_threshold = 0.5,
                   form_file = example_file\<rparr>],
       awaiting = 2 \<rparr>"

definition shown_state :: state where
  \<comment> \<open>the first detection has settled with one detection\<close>
  "shown_state =
     \<lparr> file = Some example_file, threshold = 0.5, imageUrl = ''blob:1'',
       results = Some (JArr [example_detection]), isLoading = False, error = [],
       originalImage = None, imagePreview = None,
       serviceDomain = default_domain, domainList = [default_domain],
       localStorage = \<lparr>item_serviceDomain = Some default_domain, item_domainList = None\<rparr>,
       fetched = [\<lparr>url = default_domain @ ''/crop'', query_threshold = 0.5,
                   form_file = example_file\<rparr>],
       awaiting = 0 \<rparr>"

section \<open>Notions used by the properties\<close>




definition page_inv :: "state \<Rightarrow> bool" where
  "page_inv s =
     ((file s = None \<longrightarrow> imageUrl s = [] \<and> \<not> isLoading s \<and> originalImage s = None)
      \<and> (imageUrl s = [] \<longrightarrow> file s = None))"

definition known :: "state \<Rightarrow> bool" where
  "known s = (\<forall>r \<in> set (fetched s). \<exists>d \<in> set (domainList s). d \<noteq> [] \<and> url r = d @ ''/crop'')"

section \<open>The concrete inputs are states of the page\<close>

lemmas model_defs =
  mounted_def onMounted_def script_setup_def watch_serviceDomain_def addDomainToList_def
  handleFileChange_def createObjectURL_def watch_imageUrl_threshold_def onImageLoad_def
  runDetection_def runDetection_begin_def runDetection_resume_def try_rest_def
  catch_block_def finally_block_def ok_def api_error_def default_domain_def Let_def

lemma mounted_empty_storage: "mounted empty_storage = fresh_state"
  by (simp add: model_defs empty_storage_def fresh_state_def)

lemma handleFileChange_fresh: "handleFileChange [example_file] ''1'' fresh_state = selected_state"
  by (simp add: handleFileChange_def createObjectURL_def fresh_state_def selected_state_def)


lemma step_choose_file: "step choose_file fresh_state = detecting_state"
  by (simp add: model_defs choose_file_def fresh_state_def detecting_state_def)

lemma step_retarget: "step (DomainInput ''http://b'') detecting_state = retargeted_state"
  by (simp add: model_defs detecting_state_def retargeted_state_def)


lemma step_clear: "step (DomainInput []) fresh_state = unaddressed_state"
  by (simp add: model_defs fresh_state_def unaddressed_state_def)

lemma exec_step: "enabled e s \<Longrightarrow> exec (e # es) s = exec es (step e s)"
  by simp

lemma enabled_choose_file: "enabled choose_file s"
  by (simp add: choose_file_def)

lemma exec_detecting: "exec [choose_file] (mounted empty_storage) = Some detecting_state"
  by (simp only: mounted_empty_storage exec_step [OF enabled_choose_file] step_choose_file
      exec.simps(1))

lemma exec_retargeted:
  "exec [choose_file, DomainInput ''http://b''] (mounted empty_storage) = Some retargeted_state"
proof -
  have "enabled (DomainInput ''http://b'') detecting_state" by simp
  then show ?thesis
    by (simp only: mounted_empty_storage exec_step [OF enabled_choose_file] step_choose_file
        exec_step step_retarget exec.simps(1))
qed


lemma exec_unaddressed: "exec [DomainInput []] (mounted empty_storage) = Some unaddressed_state"
proof -
  have "enabled (DomainInput []) fresh_state" by simp
  then show ?thesis
    by (simp only: mounted_empty_storage exec_step step_clear exec.simps(1))
qed

lemma begin_selected: "runDetection_begin selected_state = Suspended detecting_state"
  by (simp add: model_defs selected_state_def detecting_state_def)

lemma begin_retargeted: "runDetection_begin retargeted_state = Suspended retried_state"
  by (simp add: model_defs retargeted_state_def retried_state_def)

lemma step_shown:
  "step (Settled (Resolved (json_response example_body (JArr [JArr [example_detection]]))))
     detecting_state = shown_state"
  by (simp add: model_defs json_response_def detecting_state_def shown_state_def)

lemma exec_shown:
  "exec [choose_file,
         Settled (Resolved (json_response example_body (JArr [JArr [example_detection]])))]
     (mounted empty_storage) = Some shown_state"
proof -
  have "enabled (Settled (Resolved (json_response example_body
          (JArr [JArr [example_detection]])))) detecting_state"
    by (simp add: detecting_state_def)
  then show ?thesis
    by (simp only: mounted_empty_storage exec_step [OF enabled_choose_file] step_choose_file
        exec_step step_shown exec.simps(1))
qed

section \<open>Invariants of the page\<close>

lemma exec_invariant:
  assumes "exec es s0 = Some s" and "P s0"
    and "\<And>e t. P t \<Longrightarrow> enabled e t \<Longrightarrow> P (step e t)"
  shows "P s"
  using assms(1,2)
proof (induction es arbitrary: s0)
  case Nil
  then show ?case by simp
next
  case (Cons e es)
  then show ?case using assms(3) by (auto split: if_splits)
qed

lemma addDomainToList_fields:
  "file (addDomainToList s) = file s"
  "imageUrl (addDomainToList s) = imageUrl s"
  "isLoading (addDomainToList s) = isLoading s"
  "originalImage (addDomainToList s) = originalImage s"
  "serviceDomain (addDomainToList s) = serviceDomain s"
  "fetched (addDomainToList s) = fetched s"
  "results (addDomainToList s) = results s"
  "error (addDomainToList s) = error s"
  "threshold (addDomainToList s) = threshold s"
  "awaiting (addDomainToList s) = awaiting s"
  by (simp_all add: addDomainToList_def Let_def)

lemma try_rest_fields:
  "file (try_rest out s) = file s"
  "imageUrl (try_rest out s) = imageUrl s"
  "originalImage (try_rest out s) = originalImage s"
  "domainList (try_rest out s) = domainList s"
  "fetched (try_rest out s) = fetched s"
  "localStorage (try_rest out s) = localStorage s"
  "serviceDomain (try_rest out s) = serviceDomain s"
  by (simp_all add: try_rest_def catch_block_def Let_def split: outcome.splits sum.splits)

lemma runDetection_resume_fields:
  "file (runDetection_resume out s) = file s"
  "imageUrl (runDetection_resume out s) = imageUrl s"
  "originalImage (runDetection_resume out s) = originalImage s"
  "domainList (runDetection_resume out s) = domainList s"
  "fetched (runDetection_resume out s) = fetched s"
  "localStorage (runDetection_resume out s) = localStorage s"
  "serviceDomain (runDetection_resume out s) = serviceDomain s"
  "isLoading (runDetection_resume out s) = False"
  by (simp_all add: runDetection_resume_def finally_block_def try_rest_fields)

lemma runDetection_begin_fetched:
  "file s = Some f \<Longrightarrow> serviceDomain s \<noteq> [] \<Longrightarrow>
   runDetection_begin s =
     Suspended ((addDomainToList (s\<lparr>isLoading := True, error := [], results := Some (JArr [])\<rparr>))
       \<lparr>fetched := fetched s @
          [\<lparr>url = serviceDomain s @ ''/crop'', query_threshold = threshold s, form_file = f\<rparr>],
        awaiting := Suc (awaiting s)\<rparr>)"
  by (simp add: runDetection_begin_def Let_def addDomainToList_fields)

lemma page_inv_begin: "page_inv s \<Longrightarrow> page_inv (state_of (runDetection_begin s))"
  by (auto simp: page_inv_def runDetection_begin_def Let_def addDomainToList_fields
      finally_block_def catch_block_def split: option.splits)

lemma page_inv_resume: "page_inv s \<Longrightarrow> page_inv (runDetection_resume out s)"
  by (simp add: page_inv_def runDetection_resume_fields)

lemma page_inv_step: "page_inv s \<Longrightarrow> enabled e s \<Longrightarrow> page_inv (step e s)"
proof (cases e)
  case (FileChange files uuid)
  assume "page_inv s"
  then have "page_inv (handleFileChange files uuid s)"
    by (auto simp: page_inv_def handleFileChange_def createObjectURL_def split: list.splits)
  then show ?thesis using FileChange
    by (simp add: watch_imageUrl_threshold_def page_inv_begin)
next
  case (ThresholdInput v)
  assume "page_inv s"
  then have "page_inv (s\<lparr>threshold := v\<rparr>)" by (auto simp: page_inv_def)
  then show ?thesis using ThresholdInput
    by (simp add: watch_imageUrl_threshold_def page_inv_begin)
next
  case (DomainInput v)
  assume "page_inv s"
  then show ?thesis using DomainInput by (auto simp: page_inv_def watch_serviceDomain_def)
next
  case ClickRefresh
  assume "page_inv s" then show ?thesis using ClickRefresh by (simp add: page_inv_begin)
next
  case ClickRetry
  assume "page_inv s" then show ?thesis using ClickRetry by (simp add: page_inv_begin)
next
  case (ImageLoad target)
  assume "page_inv s" "enabled e s"
  then show ?thesis using ImageLoad by (auto simp: page_inv_def onImageLoad_def)
next
  case (Layout p)
  assume "page_inv s" then show ?thesis using Layout by (auto simp: page_inv_def)
next
  case (Settled out)
  assume "page_inv s" then show ?thesis using Settled by (simp add: page_inv_resume)
qed

lemma page_inv_mounted: "page_inv (mounted st)"
  by (simp add: page_inv_def mounted_def onMounted_def script_setup_def Let_def
      watch_serviceDomain_def)

lemma page_inv_exec: "exec es (mounted st) = Some s \<Longrightarrow> page_inv s"
  using exec_invariant [of es "mounted st" s page_inv] page_inv_mounted page_inv_step by blast

lemma known_begin: "known s \<Longrightarrow> known (state_of (runDetection_begin s))"
  by (auto simp: known_def runDetection_begin_def Let_def addDomainToList_def
      finally_block_def catch_block_def split: option.splits)

lemma known_resume: "known s \<Longrightarrow> known (runDetection_resume out s)"
  by (simp add: known_def runDetection_resume_fields)

lemma known_step: "known s \<Longrightarrow> known (step e s)"
proof (cases e)
  case (FileChange files uuid)
  assume "known s"
  then have "known (handleFileChange files uuid s)"
    by (auto simp: known_def handleFileChange_def split: list.splits)
  then show ?thesis using FileChange
    by (simp add: watch_imageUrl_threshold_def known_begin)
next
  case (ThresholdInput v)
  assume "known s"
  then have "known (s\<lparr>threshold := v\<rparr>)" by (simp add: known_def)
  then show ?thesis using ThresholdInput
    by (simp add: watch_imageUrl_threshold_def known_begin)
next
  case (DomainInput v)
  assume "known s"
  then show ?thesis using DomainInput by (simp add: known_def watch_serviceDomain_def)
next
  case ClickRefresh
  assume "known s" then show ?thesis using ClickRefresh by (simp add: known_begin)
next
  case ClickRetry
  assume "known s" then show ?thesis using ClickRetry by (simp add: known_begin)
next
  case (ImageLoad target)
  assume "known s"
  then show ?thesis using ImageLoad by (auto simp: known_def onImageLoad_def)
next
  case (Layout p)
  assume "known s" then show ?thesis using Layout by (simp add: known_def)
next
  case (Settled out)
  assume "known s" then show ?thesis using Settled by (simp add: known_resume)
qed

lemma known_mounted: "known (mounted st)"
  by (simp add: known_def mounted_def onMounted_def script_setup_def Let_def
      watch_serviceDomain_def)

lemma known_exec: "exec es (mounted st) = Some s \<Longrightarrow> known s"
  using exec_invariant [of es "mounted st" s known] known_mounted known_step by blast

section \<open>Properties\<close>

text \<open>
  C1. A response with a status in 200-299 whose body decodes to the empty array \<open>[]\<close>
  is said to leave the detections the empty sequence and to set the message to the
  notice that nothing was detected. On the state in which the file has just been chosen,
  runDetection does set the notice and does not throw, but it stores \<open>data[0]\<close>
  (line 92), which is \<open>undefined\<close> for an empty array: the detections are not the
  empty sequence.
\<close>

theorem runDetection_empty_outer_array:
  "results (runDetection (Resolved (json_response ''[]'' (JArr []))) selected_state) = None
   \<and> results (runDetection (Resolved (json_response ''[]'' (JArr []))) selected_state)
       \<noteq> Some (JArr [])
   \<and> error (runDetection (Resolved (json_response ''[]'' (JArr []))) selected_state)
       = msg_no_target
   \<and> isLoading (runDetection (Resolved (json_response ''[]'' (JArr []))) selected_state)
       = False"
  by (simp add: model_defs json_response_def selected_state_def)

text \<open>
  C2. While a file is selected, a new value of the threshold starts runDetection again;
  a new value of the service address does not: its watcher (lines 35-39) only stores the
  address, and no request is issued until detection is started by something else.
\<close>

theorem threshold_retriggers_detection:
  assumes "exec es (mounted st) = Some s" and "file s = Some f" and "v \<noteq> threshold s"
  shows "step (ThresholdInput v) s = state_of (runDetection_begin (s\<lparr>threshold := v\<rparr>))
    \<and> (serviceDomain s \<noteq> [] \<longrightarrow>
         fetched (step (ThresholdInput v) s) =
           fetched s @ [\<lparr>url = serviceDomain s @ ''/crop'', query_threshold = v, form_file = f\<rparr>])
    \<and> step (DomainInput d) s = watch_serviceDomain s (s\<lparr>serviceDomain := d\<rparr>)
    \<and> fetched (step (DomainInput d) s) = fetched s
    \<and> awaiting (step (DomainInput d) s) = awaiting s
    \<and> isLoading (step (DomainInput d) s) = isLoading s
    \<and> results (step (DomainInput d) s) = results s
    \<and> error (step (DomainInput d) s) = error s"
proof -
  have "page_inv s" using assms(1) by (rule page_inv_exec)
  then have url: "imageUrl s \<noteq> []" using assms(2) by (auto simp: page_inv_def)
  then have a: "step (ThresholdInput v) s = state_of (runDetection_begin (s\<lparr>threshold := v\<rparr>))"
    using assms(3) by (simp add: watch_imageUrl_threshold_def)
  have b: "serviceDomain s \<noteq> [] \<longrightarrow>
         fetched (step (ThresholdInput v) s) =
           fetched s @ [\<lparr>url = serviceDomain s @ ''/crop'', query_threshold = v, form_file = f\<rparr>]"
    unfolding a using assms(2)
    by (simp add: runDetection_begin_fetched [where s = "s\<lparr>threshold := v\<rparr>" and f = f]
        addDomainToList_fields)
  show ?thesis using a b by (simp add: watch_serviceDomain_def)
qed

theorem threshold_retriggers_detection_witness:
  "fetched (step (ThresholdInput 0.7) detecting_state) =
     [\<lparr>url = default_domain @ ''/crop'', query_threshold = 0.5, form_file = example_file\<rparr>,
      \<lparr>url = default_domain @ ''/crop'', query_threshold = 0.7, form_file = example_file\<rparr>]
   \<and> fetched (step (DomainInput ''http://b'') detecting_state) =
     [\<lparr>url = default_domain @ ''/crop'', query_threshold = 0.5, form_file = example_file\<rparr>]"
proof -
  have h: "file detecting_state = Some example_file" "0.7 \<noteq> threshold detecting_state"
    "serviceDomain detecting_state \<noteq> []" "serviceDomain detecting_state = default_domain"
    "fetched detecting_state =
       [\<lparr>url = default_domain @ ''/crop'', query_threshold = 0.5, form_file = example_file\<rparr>]"
    by (simp_all add: detecting_state_def default_domain_def)
  note t = threshold_retriggers_detection [OF exec_detecting h(1,2), of "''http://b''"]
  have "fetched (step (ThresholdInput 0.7) detecting_state) =
      fetched detecting_state @
        [\<lparr>url = serviceDomain detecting_state @ ''/crop'', query_threshold = 0.7,
          form_file = example_file\<rparr>]"
    using t h(3) by blast
  then have a: "fetched (step (ThresholdInput 0.7) detecting_state) =
     [\<lparr>url = default_domain @ ''/crop'', query_threshold = 0.5, form_file = example_file\<rparr>,
      \<lparr>url = default_domain @ ''/crop'', query_threshold = 0.7, form_file = example_file\<rparr>]"
    unfolding h(4) h(5) by (simp del: step.simps)
  have "fetched (step (DomainInput ''http://b'') detecting_state) = fetched detecting_state"
    using t by blast
  then show ?thesis using a unfolding h(5) by blast
qed

text \<open>
  C2, as it was stated: a new service address while a file is selected starts detection
  again. On the page mounted on an empty storage, after a file is chosen the address is
  replaced by a new one: no request is added and no invocation is suspended, although an
  invocation of runDetection in that state does issue a request.
\<close>

theorem domain_input_no_detection_counterexample:
  "exec [choose_file, DomainInput ''http://b''] (mounted empty_storage) = Some retargeted_state
   \<and> file detecting_state = Some example_file
   \<and> serviceDomain detecting_state \<noteq> ''http://b''
   \<and> step (DomainInput ''http://b'') detecting_state = retargeted_state
   \<and> fetched retargeted_state = fetched detecting_state
   \<and> awaiting retargeted_state = awaiting detecting_state
   \<and> fetched (state_of (runDetection_begin retargeted_state)) \<noteq> fetched retargeted_state"
proof -
  have "file detecting_state = Some example_file"
    and "serviceDomain detecting_state \<noteq> ''http://b''"
    by (simp_all add: detecting_state_def default_domain_def)
  moreover have "fetched retargeted_state = fetched detecting_state"
    and "awaiting retargeted_state = awaiting detecting_state"
    by (simp_all add: detecting_state_def retargeted_state_def)
  moreover have "fetched (state_of (runDetection_begin retargeted_state)) \<noteq> fetched retargeted_state"
    unfolding begin_retargeted by (simp add: retargeted_state_def retried_state_def)
  ultimately show ?thesis using exec_retargeted step_retarget by blast
qed




text \<open>
  C4. With a file selected and an empty service address, runDetection stores the message
  that the address must not be empty, ends with the loading flag false and issues no
  request. With no file selected it returns at once (line 63): it issues no request
  either, but it changes nothing, so no message is stored.
\<close>

theorem runDetection_validation:
  "(file s = None \<longrightarrow>
      runDetection_begin s = Returned s \<and> runDetection out s = s)
   \<and> (file s = Some f \<and> serviceDomain s = [] \<longrightarrow>
        runDetection_begin s =
          Returned (s\<lparr>isLoading := False, error := msg_empty_domain, results := Some (JArr [])\<rparr>)
        \<and> runDetection out s =
             s\<lparr>isLoading := False, error := msg_empty_domain, results := Some (JArr [])\<rparr>
        \<and> fetched (runDetection out s) = fetched s)"
  by (simp add: runDetection_def runDetection_begin_def addDomainToList_def Let_def
      catch_block_def finally_block_def msg_empty_domain_def)

theorem runDetection_validation_witness:
  "runDetection (Rejected ''offline'') unaddressed_state = unaddressed_state
   \<and> error (runDetection (Rejected ''offline'') (selected_state\<lparr>serviceDomain := []\<rparr>))
       = msg_empty_domain
   \<and> isLoading (runDetection (Rejected ''offline'') (selected_state\<lparr>serviceDomain := []\<rparr>))
       = False
   \<and> fetched (runDetection (Rejected ''offline'') (selected_state\<lparr>serviceDomain := []\<rparr>)) = []"
proof -
  have h: "file unaddressed_state = None"
    "file (selected_state\<lparr>serviceDomain := []\<rparr>) = Some example_file"
    "serviceDomain (selected_state\<lparr>serviceDomain := []\<rparr>) = []"
    "fetched (selected_state\<lparr>serviceDomain := []\<rparr>) = []"
    by (simp_all add: unaddressed_state_def selected_state_def)
  show ?thesis
    using runDetection_validation [where s = unaddressed_state and out = "Rejected ''offline''"]
      runDetection_validation [where s = "selected_state\<lparr>serviceDomain := []\<rparr>"
        and f = example_file and out = "Rejected ''offline''"] h
    by simp
qed

text \<open>
  C4, as it was stated: with no file selected runDetection stores the message of the empty
  address. On the page mounted on an empty storage whose address has been cleared, no
  file is selected and the address is empty, and runDetection leaves the message empty.
\<close>

theorem runDetection_no_file_counterexample:
  "exec [DomainInput []] (mounted empty_storage) = Some unaddressed_state
   \<and> file unaddressed_state = None
   \<and> serviceDomain unaddressed_state = []
   \<and> error (runDetection (Rejected ''offline'') unaddressed_state) = []
   \<and> error (runDetection (Rejected ''offline'') unaddressed_state) \<noteq> msg_empty_domain"
proof -
  have "file unaddressed_state = None" and "serviceDomain unaddressed_state = []"
    by (simp_all add: unaddressed_state_def)
  moreover have "error (runDetection (Rejected ''offline'') unaddressed_state) = []"
    and "error (runDetection (Rejected ''offline'') unaddressed_state) \<noteq> msg_empty_domain"
    by (simp_all add: runDetection_def runDetection_begin_def unaddressed_state_def
        msg_empty_domain_def)
  ultimately show ?thesis using exec_unaddressed by blast
qed



text \<open>
  C6. Whatever the network gives back (a result, a status outside 200-299, a failure
  of the request, a body that is not JSON), the loading flag is false when runDetection
  is over; so it is when runDetection returns before any request, in every state the
  page can be in.
\<close>

theorem isLoading_false_on_exit:
  assumes "exec es (mounted st) = Some s"
  shows "\<not> isLoading (runDetection out s)
    \<and> (runDetection_begin s = Returned s' \<longrightarrow> \<not> isLoading s')
    \<and> \<not> isLoading (runDetection_resume out t)"
proof -
  have "page_inv s" using assms by (rule page_inv_exec)
  then have none: "file s = None \<longrightarrow> \<not> isLoading s" by (simp add: page_inv_def)
  have ret: "runDetection_begin s = Returned s' \<longrightarrow> \<not> isLoading s'"
    using none
    by (auto simp: runDetection_begin_def Let_def finally_block_def split: option.splits if_splits)
  have res: "\<And>u. \<not> isLoading (runDetection_resume out u)"
    by (simp add: runDetection_resume_fields)
  have "\<not> isLoading (runDetection out s)"
  proof (cases "runDetection_begin s")
    case (Returned u)
    then show ?thesis using none
      by (auto simp: runDetection_def runDetection_begin_def Let_def finally_block_def
          split: option.splits if_splits)
  next
    case (Suspended u)
    then show ?thesis using res by (simp add: runDetection_def)
  qed
  then show ?thesis using ret res by simp
qed

theorem isLoading_false_on_exit_witness:
  "\<not> isLoading (runDetection (Resolved boom_response) detecting_state)
   \<and> \<not> isLoading (runDetection_resume (Rejected ''offline'') detecting_state)
   \<and> isLoading detecting_state"
proof -
  have "isLoading detecting_state" by (simp add: detecting_state_def)
  then show ?thesis
    using isLoading_false_on_exit [OF exec_detecting, of "Resolved boom_response"]
      isLoading_false_on_exit [OF exec_detecting, of "Rejected ''offline''" _ detecting_state]
    by blast
qed

text \<open>
  C7. In every state the page can be in, the address of every request issued so far
  is a non-empty member of the list of known addresses. When runDetection issues a
  request, the address is in that list at that moment; an address that was not in the
  list has just been appended and the list written to the storage, and for an address
  that was already there neither the list nor the storage is touched. The address the
  list is seeded with on an empty storage is therefore used without ever being stored.
\<close>

theorem attempted_domain_is_known:
  assumes "exec es (mounted st) = Some s"
  shows "(r \<in> set (fetched s) \<longrightarrow> (\<exists>d \<in> set (domainList s). d \<noteq> [] \<and> url r = d @ ''/crop''))
    \<and> (runDetection_begin s = Suspended s' \<longrightarrow>
          serviceDomain s \<noteq> [] \<and> serviceDomain s \<in> set (domainList s')
          \<and> map url (fetched s') = map url (fetched s) @ [serviceDomain s @ ''/crop'']
          \<and> (serviceDomain s \<notin> set (domainList s) \<longrightarrow>
                domainList s' = domainList s @ [serviceDomain s]
                \<and> item_domainList (localStorage s') = Some (domainList s'))
          \<and> (serviceDomain s \<in> set (domainList s) \<longrightarrow>
                domainList s' = domainList s \<and> localStorage s' = localStorage s))"
proof -
  have "known s" using assms by (rule known_exec)
  then have a: "r \<in> set (fetched s) \<longrightarrow> (\<exists>d \<in> set (domainList s). d \<noteq> [] \<and> url r = d @ ''/crop'')"
    by (simp add: known_def)
  have b: "runDetection_begin s = Suspended s' \<longrightarrow>
          serviceDomain s \<noteq> [] \<and> serviceDomain s \<in> set (domainList s')
          \<and> map url (fetched s') = map url (fetched s) @ [serviceDomain s @ ''/crop'']
          \<and> (serviceDomain s \<notin> set (domainList s) \<longrightarrow>
                domainList s' = domainList s @ [serviceDomain s]
                \<and> item_domainList (localStorage s') = Some (domainList s'))
          \<and> (serviceDomain s \<in> set (domainList s) \<longrightarrow>
                domainList s' = domainList s \<and> localStorage s' = localStorage s)"
    by (auto simp: runDetection_begin_def Let_def addDomainToList_def finally_block_def
        catch_block_def split: option.splits if_splits)
  show ?thesis using a b by simp
qed

theorem attempted_domain_is_known_witness:
  "default_domain \<in> set (domainList retargeted_state)
   \<and> ''http://b'' \<in> set (domainList retried_state)
   \<and> domainList retried_state = domainList retargeted_state @ [''http://b'']
   \<and> item_domainList (localStorage retried_state) = Some [default_domain, ''http://b'']
   \<and> map url (fetched retried_state) = [default_domain @ ''/crop'', ''http://b/crop'']"
proof -
  have h: "serviceDomain retargeted_state = ''http://b''"
    "''http://b'' \<notin> set (domainList retargeted_state)"
    "domainList retargeted_state = [default_domain]"
    "map url (fetched retried_state) = [default_domain @ ''/crop'', ''http://b/crop'']"
    by (simp_all add: retargeted_state_def retried_state_def default_domain_def)
  note t = attempted_domain_is_known [OF exec_retargeted, of _ retried_state]
  have "domainList retried_state = domainList retargeted_state @ [''http://b'']"
    and "item_domainList (localStorage retried_state) = Some (domainList retried_state)"
    and "''http://b'' \<in> set (domainList retried_state)"
    using t begin_retargeted h(1,2) by auto
  then show ?thesis using h(3,4) by simp
qed

text \<open>
  C7, as it was stated: the address of a request has been appended and stored before the
  request is issued. On the page mounted on an empty storage, choosing a file issues a
  request to the seeded address, and the storage holds no list of addresses.
\<close>

theorem seeded_domain_not_persisted_counterexample:
  "exec [choose_file] (mounted empty_storage) = Some detecting_state
   \<and> map url (fetched detecting_state) = [default_domain @ ''/crop'']
   \<and> domainList detecting_state = [default_domain]
   \<and> item_domainList (localStorage detecting_state) = None"
proof -
  have "map url (fetched detecting_state) = [default_domain @ ''/crop'']"
    and "domainList detecting_state = [default_domain]"
    and "item_domainList (localStorage detecting_state) = None"
    by (simp_all add: detecting_state_def)
  then show ?thesis using exec_detecting by blast
qed

text \<open>
  C8. addDomainToList changes nothing when the address is empty or already in the list
  of known addresses, and otherwise appends it and writes the list to the storage; doing
  it twice is the same as doing it once, and from an empty list two calls with the same
  non-empty address leave a list of length 1.
\<close>

theorem addDomainToList_idempotent:
  "addDomainToList (addDomainToList s) = addDomainToList s
   \<and> (serviceDomain s = [] \<or> serviceDomain s \<in> set (domainList s) \<longrightarrow> addDomainToList s = s)
   \<and> (serviceDomain s \<noteq> [] \<and> serviceDomain s \<notin> set (domainList s) \<longrightarrow>
        domainList (addDomainToList s) = domainList s @ [serviceDomain s]
        \<and> item_domainList (localStorage (addDomainToList s)) = Some (domainList s @ [serviceDomain s]))
   \<and> (domainList s = [] \<and> serviceDomain s \<noteq> [] \<longrightarrow>
        length (domainList (addDomainToList (addDomainToList s))) = 1)"
  by (simp add: addDomainToList_def Let_def)

theorem addDomainToList_idempotent_witness:
  "domainList (addDomainToList (addDomainToList
      ((script_setup empty_storage)\<lparr>serviceDomain := ''http://a''\<rparr>))) = [''http://a'']
   \<and> item_domainList (localStorage
        (addDomainToList ((script_setup empty_storage)\<lparr>serviceDomain := ''http://a''\<rparr>)))
     = Some [''http://a'']
   \<and> length (domainList (addDomainToList (addDomainToList
        ((script_setup empty_storage)\<lparr>serviceDomain := ''http://a''\<rparr>)))) = 1
   \<and> addDomainToList fresh_state = fresh_state
   \<and> addDomainToList unaddressed_state = unaddressed_state"
proof -
  have h: "serviceDomain ((script_setup empty_storage)\<lparr>serviceDomain := ''http://a''\<rparr>) = ''http://a''"
    "domainList ((script_setup empty_storage)\<lparr>serviceDomain := ''http://a''\<rparr>) = []"
    "serviceDomain fresh_state \<in> set (domainList fresh_state)"
    "serviceDomain unaddressed_state = []"
    by (simp_all add: script_setup_def fresh_state_def unaddressed_state_def)
  show ?thesis
    using addDomainToList_idempotent [of "(script_setup empty_storage)\<lparr>serviceDomain := ''http://a''\<rparr>"]
      addDomainToList_idempotent [of fresh_state]
      addDomainToList_idempotent [of unaddressed_state] h
    by simp
qed





end
